theory Spec2Isabelle
  imports Complex_Main
begin

section \<open>Data model\<close>

text \<open>
  Both scripts compute with Python numbers. Quantities, half-lives and hours are
  modelled as mathematical reals: rounding, overflow and the special values of
  IEEE doubles are outside this model. A timezone-aware \<^verbatim>\<open>datetime\<close> is an
  absolute instant with microsecond resolution; it is modelled as the integer number
  of microseconds since the epoch, so that two keys of \<^verbatim>\<open>results\<close> are equal
  exactly when they denote the same instant.
\<close>

type_synonym datetime = int

text \<open>The exceptions the modelled statements can raise.\<close>

datatype py_error = KeyError | ZeroDivisionError

text \<open>
  One entry of \<^verbatim>\<open>medications\<close>: the dictionary with the keys
  \<^verbatim>\<open>"time"\<close>, \<^verbatim>\<open>"dose"\<close> and \<^verbatim>\<open>"type"\<close>.
\<close>

record med =
  med_time :: datetime
  med_dose :: real
  med_type :: string

type_synonym half_lives = "string \<rightharpoonup> real"

type_synonym results_map = "datetime \<rightharpoonup> (string \<rightharpoonup> real)"

section \<open>calculate.py\<close>

text \<open>The module-level table \<^verbatim>\<open>HALF_LIVES\<close> (hours).\<close>

definition HALF_LIVES :: half_lives where
  "HALF_LIVES = map_of
     [(''oxycodone'', 32 / 10),
      (''hydrocodone'', 4),
      (''morphine'', 275 / 100),
      (''fentanyl'', 37 / 10),
      (''codeine'', 3),
      (''methadone'', 335 / 10),
      (''buprenorphine'', 33),
      (''tramadol'', 63 / 10),
      (''hydromorphone'', 25 / 10),
      (''oxymorphone'', 8),
      (''tapentadol'', 4),
      (''amphetamine'', 115 / 10),
      (''methylphenidate'', 25 / 10),
      (''dextroamphetamine'', 11),
      (''lisdexamfetamine'', 115 / 10),
      (''modafinil'', 135 / 10),
      (''cocaine'', 1),
      (''caffeine'', 4),
      (''alprazolam'', 135 / 10),
      (''lorazepam'', 15),
      (''diazepam'', 35),
      (''clonazepam'', 34),
      (''temazepam'', 15),
      (''midazolam'', 2),
      (''chlordiazepoxide'', 175 / 10),
      (''flurazepam'', 25 / 10),
      (''triazolam'', 35 / 10)]"

text \<open>
  \<^verbatim>\<open>def remaining_dose(dose, hours_elapsed, half_life):
    return dose * (0.5 ** (hours_elapsed / half_life))\<close>

  The division raises \<^verbatim>\<open>ZeroDivisionError\<close> when \<^verbatim>\<open>half_life\<close> is zero.
\<close>

definition remaining_dose :: "real \<Rightarrow> real \<Rightarrow> real \<Rightarrow> py_error + real" where
  "remaining_dose dose hours_elapsed half_life =
     (if half_life = 0 then Inl ZeroDivisionError
      else Inr (dose * ((1 / 2) powr (hours_elapsed / half_life))))"

text \<open>
  \<^verbatim>\<open>(target_time - med_time).total_seconds() / 3600\<close>: the difference of two
  instants is a whole number of microseconds, \<^verbatim>\<open>total_seconds\<close> divides it
  by \<open>10\<^sup>6\<close>.
\<close>

definition total_seconds :: "int \<Rightarrow> real" where
  "total_seconds microseconds = real_of_int microseconds / 1000000"

definition hours_elapsed_of :: "datetime \<Rightarrow> datetime \<Rightarrow> real" where
  "hours_elapsed_of target_time mtime = total_seconds (target_time - mtime) / 3600"

text \<open>
  Line 63: \<^verbatim>\<open>results = {time: {"oxycodone": 0, "hydrocodone": 0} for time in target_times}\<close>.
  Every key gets a dictionary of its own; a repeated target time overwrites its entry
  with an equal one.
\<close>

definition seed :: "string \<rightharpoonup> real" where
  "seed = [''oxycodone'' \<mapsto> 0, ''hydrocodone'' \<mapsto> 0]"

definition results :: "datetime list \<Rightarrow> results_map" where
  "results target_times = foldl (\<lambda>r t. r(t \<mapsto> seed)) Map.empty target_times"

text \<open>
  Lines 69 to 74, the body of the inner loop for one medication and one target time.
  \<^verbatim>\<open>HALF_LIVES.get(med_type)\<close> yields \<^verbatim>\<open>None\<close> for an absent key, and
  \<^verbatim>\<open>if half_life:\<close> is false for \<^verbatim>\<open>None\<close> and for zero. The augmented
  assignment \<^verbatim>\<open>results[target_time][med_type] += ...\<close> first reads
  \<^verbatim>\<open>results[target_time]\<close>, then its entry \<^verbatim>\<open>[med_type]\<close> (each read raises
  \<^verbatim>\<open>KeyError\<close> on an absent key), then evaluates the right-hand side, then stores
  the sum.
\<close>

definition loop_body :: "half_lives \<Rightarrow> med \<Rightarrow> datetime \<Rightarrow> results_map \<Rightarrow> py_error + results_map" where
  "loop_body hl m target_time res =
     (let hours_elapsed = hours_elapsed_of target_time (med_time m) in
      if hours_elapsed > 0 then
        (case hl (med_type m) of
           None \<Rightarrow> Inr res
         | Some half_life \<Rightarrow>
             if half_life \<noteq> 0 then
               (case res target_time of
                  None \<Rightarrow> Inl KeyError
                | Some inner \<Rightarrow>
                    (case inner (med_type m) of
                       None \<Rightarrow> Inl KeyError
                     | Some cur \<Rightarrow>
                         (case remaining_dose (med_dose m) hours_elapsed half_life of
                            Inl e \<Rightarrow> Inl e
                          | Inr x \<Rightarrow> Inr (res(target_time \<mapsto> inner(med_type m \<mapsto> cur + x))))))
             else Inr res)
      else Inr res)"

text \<open>Line 68: \<^verbatim>\<open>for target_time in target_times\<close>; an exception ends the loop.\<close>

fun target_loop :: "half_lives \<Rightarrow> med \<Rightarrow> datetime list \<Rightarrow> results_map \<Rightarrow> py_error + results_map" where
  "target_loop hl m [] res = Inr res"
| "target_loop hl m (target_time # target_times) res =
     (case loop_body hl m target_time res of
        Inl e \<Rightarrow> Inl e
      | Inr res' \<Rightarrow> target_loop hl m target_times res')"

text \<open>Line 65: \<^verbatim>\<open>for med in medications\<close>.\<close>

fun med_loop :: "half_lives \<Rightarrow> med list \<Rightarrow> datetime list \<Rightarrow> results_map \<Rightarrow> py_error + results_map" where
  "med_loop hl [] target_times res = Inr res"
| "med_loop hl (m # medications) target_times res =
     (case target_loop hl m target_times res of
        Inl e \<Rightarrow> Inl e
      | Inr res' \<Rightarrow> med_loop hl medications target_times res')"

text \<open>
  Lines 63 to 74 as one computation, with the script's global tables as parameters:
  the half-life table, the medication history and the target times.
\<close>

definition accumulate :: "half_lives \<Rightarrow> med list \<Rightarrow> datetime list \<Rightarrow> py_error + results_map" where
  "accumulate hl medications target_times =
     med_loop hl medications target_times (results target_times)"

section \<open>bac.py\<close>

text \<open>
  Lines 27 and 30:
  \<^verbatim>\<open>bac_reduction = metabolism_rate_per_hour * time_elapsed_hours\<close> and
  \<^verbatim>\<open>current_bac = max(0, bac - bac_reduction)\<close>, with the script's constants as
  parameters. The print statements that follow (lines 39 to 43, the last one cut off
  after its \<^verbatim>\<open>%\<close>) are not modelled.
\<close>

definition bac_reduction :: "real \<Rightarrow> real \<Rightarrow> real" where
  "bac_reduction metabolism_rate_per_hour time_elapsed_hours =
     metabolism_rate_per_hour * time_elapsed_hours"

definition current_bac :: "real \<Rightarrow> real \<Rightarrow> real \<Rightarrow> real" where
  "current_bac bac metabolism_rate_per_hour time_elapsed_hours =
     max 0 (bac - bac_reduction metabolism_rate_per_hour time_elapsed_hours)"

section \<open>Notions used to state the properties\<close>

text \<open>
  The amount one medication contributes to its substance at a target time it precedes:
  its dose decayed over the elapsed hours, and nothing when the table has no half-life
  for its substance or has the half-life zero (line 73).
\<close>

definition decayed :: "half_lives \<Rightarrow> med \<Rightarrow> datetime \<Rightarrow> real" where
  "decayed hl m t =
     (case hl (med_type m) of
        None \<Rightarrow> 0
      | Some h \<Rightarrow> if h = 0 then 0
                 else med_dose m * (1 / 2) powr (hours_elapsed_of t (med_time m) / h))"

text \<open>
  Both guards of the loop body hold (lines 70 and 73), so that the body reaches the
  update of line 74.
\<close>

definition reaches_update :: "half_lives \<Rightarrow> med \<Rightarrow> datetime \<Rightarrow> bool" where
  "reaches_update hl m t =
     (med_time m < t \<and> (case hl (med_type m) of None \<Rightarrow> False | Some h \<Rightarrow> h \<noteq> 0))"

text \<open>
  \<^verbatim>\<open>results[t][s]\<close> can be read: both keys are present.
\<close>

definition has_entry :: "results_map \<Rightarrow> datetime \<Rightarrow> string \<Rightarrow> bool" where
  "has_entry res t s = (case res t of None \<Rightarrow> False | Some inner \<Rightarrow> inner s \<noteq> None)"

section \<open>The script's data\<close>

text \<open>
  Lines 50 to 60, with each localized New York time (UTC-5 on these dates) as
  microseconds since the epoch.
\<close>

definition medications :: "med list" where
  "medications =
     [\<lparr>med_time = 1730727960000000, med_dose = 5, med_type = ''oxycodone''\<rparr>,
      \<lparr>med_time = 1730820900000000, med_dose = 5, med_type = ''oxycodone''\<rparr>,
      \<lparr>med_time = 1730932740000000, med_dose = 5, med_type = ''oxycodone''\<rparr>]"

definition target_times :: "datetime list" where
  "target_times = [1730948400000000, 1731020400000000]"

section \<open>Basic facts\<close>

lemma hours_elapsed_pos: "0 < hours_elapsed_of t mt \<longleftrightarrow> mt < t"
  by (simp add: hours_elapsed_of_def total_seconds_def)

lemma foldl_seed_apply:
  "foldl (\<lambda>r t. r(t \<mapsto> seed)) r0 ts k = (if k \<in> set ts then Some seed else r0 k)"
  by (induction ts arbitrary: r0) auto

lemma results_apply: "results ts k = (if k \<in> set ts then Some seed else None)"
  by (simp add: results_def foldl_seed_apply)

lemma dom_seed: "dom seed = {''oxycodone'', ''hydrocodone''}"
  by (auto simp: seed_def)

lemma HALF_LIVES_oxycodone: "HALF_LIVES ''oxycodone'' = Some (32 / 10)"
  by (simp add: HALF_LIVES_def)

lemma HALF_LIVES_morphine: "HALF_LIVES ''morphine'' = Some (275 / 100)"
  by (simp add: HALF_LIVES_def)

lemma HALF_LIVES_aspirin: "HALF_LIVES ''aspirin'' = None"
  by (simp add: HALF_LIVES_def)

subsection \<open>The loop body, case by case\<close>

lemma loop_body_skip_time: "t \<le> med_time m \<Longrightarrow> loop_body hl m t res = Inr res"
  by (simp add: loop_body_def Let_def hours_elapsed_pos)

lemma loop_body_skip_absent: "hl (med_type m) = None \<Longrightarrow> loop_body hl m t res = Inr res"
  by (simp add: loop_body_def Let_def)

lemma loop_body_skip_zero: "hl (med_type m) = Some 0 \<Longrightarrow> loop_body hl m t res = Inr res"
  by (simp add: loop_body_def Let_def)

lemma loop_body_add:
  "med_time m < t \<Longrightarrow> hl (med_type m) = Some h \<Longrightarrow> h \<noteq> 0 \<Longrightarrow>
   res t = Some inner \<Longrightarrow> inner (med_type m) = Some cur \<Longrightarrow>
   loop_body hl m t res =
     Inr (res(t \<mapsto> inner(med_type m \<mapsto>
            cur + med_dose m * (1 / 2) powr (hours_elapsed_of t (med_time m) / h))))"
  by (simp add: loop_body_def Let_def hours_elapsed_pos remaining_dose_def)

lemma target_loop_skip_absent:
  "hl (med_type m) = None \<Longrightarrow> target_loop hl m ts res = Inr res"
  by (induction ts) (simp_all add: loop_body_skip_absent)

lemma med_loop_append:
  "med_loop hl (xs @ ys) ts res =
     (case med_loop hl xs ts res of Inl e \<Rightarrow> Inl e | Inr r \<Rightarrow> med_loop hl ys ts r)"
  by (induction xs arbitrary: res) (auto split: sum.splits)

subsection \<open>The only exception is a missing key\<close>

lemma loop_body_error: "loop_body hl m t res = Inl e \<Longrightarrow> e = KeyError"
  by (auto simp: loop_body_def Let_def remaining_dose_def split: if_splits option.splits sum.splits)

lemma target_loop_error: "target_loop hl m ts res = Inl e \<Longrightarrow> e = KeyError"
  by (induction ts arbitrary: res) (auto split: sum.splits dest: loop_body_error)

lemma med_loop_error: "med_loop hl ms ts res = Inl e \<Longrightarrow> e = KeyError"
  by (induction ms arbitrary: res) (auto split: sum.splits dest: target_loop_error)

subsection \<open>The keys of the result never change\<close>

text \<open>
  The outer keys and the key set of every inner dictionary, as one function of the
  result map, are the same before and after each loop.
\<close>

lemma loop_body_shape:
  "loop_body hl m t res = Inr r \<Longrightarrow> map_option dom (r k) = map_option dom (res k)"
  by (auto simp: loop_body_def Let_def remaining_dose_def insert_absorb domI
      split: if_splits option.splits sum.splits)

lemma target_loop_shape:
  "target_loop hl m ts res = Inr r \<Longrightarrow> map_option dom (r k) = map_option dom (res k)"
proof (induction ts arbitrary: res)
  case Nil
  then show ?case by simp
next
  case (Cons t ts)
  then show ?case
    by (auto split: sum.splits dest: loop_body_shape [where k = k])
qed

lemma med_loop_shape:
  "med_loop hl ms ts res = Inr r \<Longrightarrow> map_option dom (r k) = map_option dom (res k)"
proof (induction ms arbitrary: res)
  case Nil
  then show ?case by simp
next
  case (Cons m ms)
  then show ?case
    by (auto split: sum.splits dest: target_loop_shape [where k = k])
qed

lemma has_entry_shape:
  "map_option dom (r t) = map_option dom (res t) \<Longrightarrow> has_entry r t s = has_entry res t s"
  by (cases "r t"; cases "res t") (auto simp: has_entry_def dom_def set_eq_iff)

lemma has_entry_results:
  "has_entry (results ts) t s \<longleftrightarrow> t \<in> set ts \<and> s \<in> {''oxycodone'', ''hydrocodone''}"
  by (auto simp: has_entry_def results_apply seed_def)

subsection \<open>The value of one entry\<close>

text \<open>
  One entry \<open>(k, s)\<close> of the result is followed through the loops. A target time that
  occurs several times in the list is processed once per occurrence.
\<close>

lemma loop_body_cell:
  assumes "loop_body hl m t res = Inr r" and "res k = Some inner" and "inner s = Some v"
  shows "\<exists>inner'. r k = Some inner' \<and>
           inner' s = Some (v + (if t = k \<and> med_type m = s \<and> med_time m < t
                                 then decayed hl m t else 0))"
  using assms
  by (auto simp: loop_body_def Let_def remaining_dose_def decayed_def hours_elapsed_pos
      split: if_splits option.splits sum.splits)

lemma target_loop_cell:
  assumes "target_loop hl m ts res = Inr r" and "res k = Some inner" and "inner s = Some v"
  shows "\<exists>inner'. r k = Some inner' \<and>
           inner' s = Some (v + real (count_list ts k) *
                                (if med_type m = s \<and> med_time m < k then decayed hl m k else 0))"
  using assms
proof (induction ts arbitrary: res inner v)
  case Nil
  then show ?case by simp
next
  case (Cons t ts)
  from Cons.prems(1) obtain res' where
    b: "loop_body hl m t res = Inr res'" and l: "target_loop hl m ts res' = Inr r"
    by (auto split: sum.splits)
  from loop_body_cell [OF b Cons.prems(2,3)] obtain inner1 where
    i1: "res' k = Some inner1"
    and v1: "inner1 s = Some (v + (if t = k \<and> med_type m = s \<and> med_time m < t
                                   then decayed hl m t else 0))"
    by blast
  from Cons.IH [OF l i1 v1] show ?case
    by (auto simp: algebra_simps)
qed

lemma med_loop_cell:
  assumes "med_loop hl ms ts res = Inr r" and "res k = Some inner" and "inner s = Some v"
  shows "\<exists>inner'. r k = Some inner' \<and>
           inner' s = Some (v + real (count_list ts k) *
                                (\<Sum>m\<leftarrow>ms. if med_type m = s \<and> med_time m < k
                                          then decayed hl m k else 0))"
  using assms
proof (induction ms arbitrary: res inner v)
  case Nil
  then show ?case by simp
next
  case (Cons m ms)
  from Cons.prems(1) obtain res' where
    b: "target_loop hl m ts res = Inr res'" and l: "med_loop hl ms ts res' = Inr r"
    by (auto split: sum.splits)
  from target_loop_cell [OF b Cons.prems(2,3)] obtain inner1 where
    i1: "res' k = Some inner1"
    and v1: "inner1 s = Some (v + real (count_list ts k) *
                                (if med_type m = s \<and> med_time m < k then decayed hl m k else 0))"
    by blast
  from Cons.IH [OF l i1 v1] show ?case
    by (auto simp: algebra_simps)
qed

lemma decayed_nonneg: "0 \<le> med_dose m \<Longrightarrow> 0 \<le> decayed hl m t"
  by (simp add: decayed_def split: option.splits)

subsection \<open>When the accumulation succeeds\<close>

lemma loop_body_Inr_iff:
  "(\<exists>r. loop_body hl m t res = Inr r) \<longleftrightarrow>
     (reaches_update hl m t \<longrightarrow> has_entry res t (med_type m))"
  by (auto simp: loop_body_def Let_def remaining_dose_def reaches_update_def has_entry_def
      hours_elapsed_pos split: if_splits option.splits sum.splits)

lemma target_loop_Inr_iff:
  "(\<exists>r. target_loop hl m ts res = Inr r) \<longleftrightarrow>
     (\<forall>t\<in>set ts. reaches_update hl m t \<longrightarrow> has_entry res t (med_type m))"
proof (induction ts arbitrary: res)
  case Nil
  then show ?case by simp
next
  case (Cons t ts)
  show ?case
  proof (cases "loop_body hl m t res")
    case (Inl e)
    with loop_body_Inr_iff [of hl m t res] show ?thesis by auto
  next
    case (Inr res')
    have same: "has_entry res' k s = has_entry res k s" for k s
      using loop_body_shape [OF Inr] by (rule has_entry_shape)
    from Inr have "reaches_update hl m t \<longrightarrow> has_entry res t (med_type m)"
      using loop_body_Inr_iff [of hl m t res] by auto
    with Inr Cons.IH [of res'] show ?thesis by (simp add: same)
  qed
qed

lemma med_loop_Inr_iff:
  "(\<exists>r. med_loop hl ms ts res = Inr r) \<longleftrightarrow>
     (\<forall>m\<in>set ms. \<forall>t\<in>set ts. reaches_update hl m t \<longrightarrow> has_entry res t (med_type m))"
proof (induction ms arbitrary: res)
  case Nil
  then show ?case by simp
next
  case (Cons m ms)
  show ?case
  proof (cases "target_loop hl m ts res")
    case (Inl e)
    with target_loop_Inr_iff [of hl m ts res] show ?thesis by auto
  next
    case (Inr res')
    have same: "has_entry res' k s = has_entry res k s" for k s
      using target_loop_shape [OF Inr] by (rule has_entry_shape)
    from Inr have "\<forall>t\<in>set ts. reaches_update hl m t \<longrightarrow> has_entry res t (med_type m)"
      using target_loop_Inr_iff [of hl m ts res] by auto
    with Inr Cons.IH [of res'] show ?thesis by (simp add: same)
  qed
qed

lemma accumulate_KeyError_iff:
  "accumulate hl ms ts = Inl KeyError \<longleftrightarrow>
     (\<exists>m\<in>set ms. \<exists>t\<in>set ts. reaches_update hl m t \<and> med_type m \<notin> dom seed)"
proof -
  have "(\<exists>r. accumulate hl ms ts = Inr r) \<longleftrightarrow>
          (\<forall>m\<in>set ms. \<forall>t\<in>set ts. reaches_update hl m t \<longrightarrow> med_type m \<in> dom seed)"
    unfolding accumulate_def med_loop_Inr_iff
    by (auto simp: has_entry_results dom_seed)
  moreover have "accumulate hl ms ts = Inl KeyError \<longleftrightarrow> \<not> (\<exists>r. accumulate hl ms ts = Inr r)"
    by (cases "accumulate hl ms ts") (auto simp: accumulate_def dest: med_loop_error)
  ultimately show ?thesis by blast
qed

lemma unseeded_substance_KeyError:
  assumes "m \<in> set ms" and "t \<in> set ts" and "med_time m < t"
    and "hl (med_type m) = Some h" and "h \<noteq> 0"
    and "med_type m \<notin> {''oxycodone'', ''hydrocodone''}"
  shows "accumulate hl ms ts = Inl KeyError"
proof -
  from assms(3-5) have "reaches_update hl m t" by (simp add: reaches_update_def)
  with assms(1,2,6) show ?thesis
    unfolding accumulate_KeyError_iff by (auto simp: dom_seed)
qed

lemma count_one_mem: "count_list ts k = 1 \<Longrightarrow> k \<in> set ts"
  by (rule ccontr) simp

text \<open>
  The whole inner dictionary of a result at a target time: the two keys of line 63, each
  with the sum of the contributions of the preceding events of that substance, once
  for every occurrence of the target time in the list.
\<close>

lemma accumulate_result_at:
  assumes run: "accumulate hl ms ts = Inr r" and k: "k \<in> set ts"
  shows "\<exists>inner. r k = Some inner \<and>
           (\<forall>s. inner s =
              (if s \<in> {''oxycodone'', ''hydrocodone''}
               then Some (real (count_list ts k) *
                      (\<Sum>m\<leftarrow>filter (\<lambda>m. med_type m = s \<and> med_time m < k) ms. decayed hl m k))
               else None))"
proof -
  from run have ml: "med_loop hl ms ts (results ts) = Inr r"
    by (simp add: accumulate_def)
  from k have rk: "results ts k = Some seed" by (simp add: results_apply)
  from med_loop_shape [OF ml, of k] rk obtain inner where
    i: "r k = Some inner" and d: "dom inner = dom seed"
    by (cases "r k") auto
  have "inner s =
          (if s \<in> {''oxycodone'', ''hydrocodone''}
           then Some (real (count_list ts k) *
                  (\<Sum>m\<leftarrow>filter (\<lambda>m. med_type m = s \<and> med_time m < k) ms. decayed hl m k))
           else None)" for s
  proof (cases "s \<in> dom seed")
    case True
    then have z: "seed s = Some 0" by (auto simp: seed_def split: if_splits)
    from med_loop_cell [OF ml rk z] i True show ?thesis
      by (auto simp: dom_seed sum_list_map_filter')
  next
    case False
    with d have "inner s = None" by auto
    with False show ?thesis by (simp add: dom_seed)
  qed
  with i show ?thesis by blast
qed

lemma accumulate_result_once:
  assumes run: "accumulate hl ms ts = Inr r" and once: "count_list ts k = 1"
  shows "\<exists>inner. r k = Some inner \<and>
           (\<forall>s. inner s =
              (if s \<in> {''oxycodone'', ''hydrocodone''}
               then Some (\<Sum>m\<leftarrow>filter (\<lambda>m. med_type m = s \<and> med_time m < k) ms.
                            decayed hl m k)
               else None))"
proof -
  from once have "k \<in> set ts" by (rule count_one_mem)
  from accumulate_result_at [OF run this] obtain inner where
    i: "r k = Some inner" and
    v: "\<And>s. inner s =
              (if s \<in> {''oxycodone'', ''hydrocodone''}
               then Some (real (count_list ts k) *
                      (\<Sum>m\<leftarrow>filter (\<lambda>m. med_type m = s \<and> med_time m < k) ms. decayed hl m k))
               else None)"
    by blast
  have "inner s =
          (if s \<in> {''oxycodone'', ''hydrocodone''}
           then Some (\<Sum>m\<leftarrow>filter (\<lambda>m. med_type m = s \<and> med_time m < k) ms.
                        decayed hl m k)
           else None)" for s
    using v [of s] once by simp
  with i show ?thesis by blast
qed

subsection \<open>Runs on concrete data\<close>

text \<open>
  A dose of 5 of oxycodone (half-life 3.2 hours) queried 3.2 hours later: half of it
  remains.
\<close>

lemma example_run:
  "accumulate HALF_LIVES [\<lparr>med_time = 0, med_dose = 5, med_type = ''oxycodone''\<rparr>] [11520000000]
     = Inr [11520000000 \<mapsto> [''oxycodone'' \<mapsto> 5 / 2, ''hydrocodone'' \<mapsto> 0]]"
  by (auto simp: accumulate_def results_def loop_body_def Let_def hours_elapsed_of_def
      total_seconds_def HALF_LIVES_oxycodone remaining_dose_def seed_def fun_eq_iff)

lemma HALF_LIVES_hydrocodone: "HALF_LIVES ''hydrocodone'' = Some 4"
  by (simp add: HALF_LIVES_def)

text \<open>
  The same dose with the target time listed twice: the loop body runs once per
  occurrence.
\<close>

lemma repeated_target_run:
  "accumulate HALF_LIVES [\<lparr>med_time = 0, med_dose = 5, med_type = ''oxycodone''\<rparr>]
     [11520000000, 11520000000]
     = Inr [11520000000 \<mapsto> [''oxycodone'' \<mapsto> 5, ''hydrocodone'' \<mapsto> 0]]"
  by (auto simp: accumulate_def results_def loop_body_def Let_def hours_elapsed_of_def
      total_seconds_def HALF_LIVES_oxycodone remaining_dose_def seed_def fun_eq_iff)

text \<open>
  A second dose taken at the target time itself.
\<close>

lemma event_at_target_run:
  "accumulate HALF_LIVES
     [\<lparr>med_time = 0, med_dose = 5, med_type = ''oxycodone''\<rparr>,
      \<lparr>med_time = 11520000000, med_dose = 5, med_type = ''oxycodone''\<rparr>]
     [11520000000]
     = Inr [11520000000 \<mapsto> [''oxycodone'' \<mapsto> 5 / 2, ''hydrocodone'' \<mapsto> 0]]"
  by (auto simp: accumulate_def results_def loop_body_def Let_def hours_elapsed_of_def
      total_seconds_def HALF_LIVES_oxycodone remaining_dose_def seed_def fun_eq_iff)

text \<open>
  Two doses of 4 of hydrocodone (half-life 4 hours), taken 8 and 4 hours before the
  target time: 1 and 2 remain.
\<close>

lemma two_doses_run:
  "accumulate HALF_LIVES
     [\<lparr>med_time = 0, med_dose = 4, med_type = ''hydrocodone''\<rparr>,
      \<lparr>med_time = 14400000000, med_dose = 4, med_type = ''hydrocodone''\<rparr>]
     [28800000000]
     = Inr [28800000000 \<mapsto> [''oxycodone'' \<mapsto> 0, ''hydrocodone'' \<mapsto> 3]]"
  by (auto simp: accumulate_def results_def loop_body_def Let_def hours_elapsed_of_def
      total_seconds_def HALF_LIVES_hydrocodone remaining_dose_def seed_def fun_eq_iff
      power2_eq_square)

lemma two_doses_repeated_target_run:
  "accumulate HALF_LIVES
     [\<lparr>med_time = 0, med_dose = 4, med_type = ''hydrocodone''\<rparr>,
      \<lparr>med_time = 14400000000, med_dose = 4, med_type = ''hydrocodone''\<rparr>]
     [28800000000, 28800000000]
     = Inr [28800000000 \<mapsto> [''oxycodone'' \<mapsto> 0, ''hydrocodone'' \<mapsto> 6]]"
  by (auto simp: accumulate_def results_def loop_body_def Let_def hours_elapsed_of_def
      total_seconds_def HALF_LIVES_hydrocodone remaining_dose_def seed_def fun_eq_iff
      power2_eq_square)

text \<open>
  Two doses of morphine, 24 hours apart, queried one hour after the second.
\<close>

lemma two_morphine_run:
  "accumulate HALF_LIVES
     [\<lparr>med_time = 0, med_dose = 5, med_type = ''morphine''\<rparr>,
      \<lparr>med_time = 86400000000, med_dose = 5, med_type = ''morphine''\<rparr>]
     [90000000000] = Inl KeyError"
  by (simp add: accumulate_def results_def loop_body_def Let_def hours_elapsed_of_def
      total_seconds_def HALF_LIVES_morphine seed_def)

lemma script_run_succeeds: "\<exists>r. accumulate HALF_LIVES medications target_times = Inr r"
proof -
  have "accumulate HALF_LIVES medications target_times \<noteq> Inl KeyError"
    unfolding accumulate_KeyError_iff
    by (simp add: medications_def target_times_def dom_seed)
  then show ?thesis
    by (cases "accumulate HALF_LIVES medications target_times")
      (auto simp: accumulate_def dest: med_loop_error)
qed

section \<open>Unknown substances (C1)\<close>

text \<open>
  C1, as the specification states it: an event whose substance is absent from the
  half-life table, and which precedes a query time, makes the accumulation report an
  UnknownSubstance error. The script does not: aspirin is not in the table, the event
  precedes the target time, and the accumulation returns the initial result map with no
  error.
\<close>

theorem unknown_substance_counterexample:
  "HALF_LIVES ''aspirin'' = None \<and> (0::int) < 3600000000 \<and>
   accumulate HALF_LIVES [\<lparr>med_time = 0, med_dose = 5, med_type = ''aspirin''\<rparr>] [3600000000]
     = Inr (results [3600000000])"
  by (simp add: HALF_LIVES_aspirin accumulate_def loop_body_skip_absent)

text \<open>
  C1, amended. An event whose substance is absent from the half-life table is skipped
  in silence: the inner loop over the target times returns the result map it was given
  and raises nothing, and the accumulation over a medication list containing the event
  has the same outcome as over the list without it.
\<close>

theorem unknown_substance_skipped:
  assumes "hl (med_type m) = None"
  shows "target_loop hl m ts res = Inr res \<and>
         accumulate hl (pre @ m # post) ts = accumulate hl (pre @ post) ts"
  using assms
  by (auto simp: accumulate_def med_loop_append target_loop_skip_absent split: sum.splits)

theorem unknown_substance_skipped_witness:
  "HALF_LIVES (med_type \<lparr>med_time = 0, med_dose = 5, med_type = ''aspirin''\<rparr>) = None \<and>
   target_loop HALF_LIVES \<lparr>med_time = 0, med_dose = 5, med_type = ''aspirin''\<rparr> [11520000000]
     (results [11520000000]) = Inr (results [11520000000]) \<and>
   accumulate HALF_LIVES
     [\<lparr>med_time = 0, med_dose = 5, med_type = ''oxycodone''\<rparr>,
      \<lparr>med_time = 0, med_dose = 5, med_type = ''aspirin''\<rparr>] [11520000000]
     = Inr [11520000000 \<mapsto> [''oxycodone'' \<mapsto> 5 / 2, ''hydrocodone'' \<mapsto> 0]]"
  using unknown_substance_skipped
    [of HALF_LIVES "\<lparr>med_time = 0, med_dose = 5, med_type = ''aspirin''\<rparr>"
        "[11520000000]" "results [11520000000]"
        "[\<lparr>med_time = 0, med_dose = 5, med_type = ''oxycodone''\<rparr>]" "[]"]
    example_run
  by (simp add: HALF_LIVES_aspirin)

section \<open>The update of an accumulator entry (C2)\<close>

text \<open>
  C2. The specification takes a missing accumulator entry as zero, so that the
  accumulation succeeds for a substance that has a half-life but is not among the keys
  the result map starts with. Line 72 reads the half-life table with
  \<^verbatim>\<open>.get\<close> and tolerates a missing key; line 74 reads the result map with a plain
  subscript and does not. At a dose of morphine, which the table lists, one hour before
  the target time, the script ends in \<^verbatim>\<open>KeyError\<close> where the specification
  has it add the decayed dose to a zero entry.
\<close>

theorem morphine_dose_raises_KeyError:
  "HALF_LIVES ''morphine'' = Some (275 / 100) \<and> (0::int) < 3600000000 \<and>
   accumulate HALF_LIVES [\<lparr>med_time = 0, med_dose = 5, med_type = ''morphine''\<rparr>] [3600000000]
     = Inl KeyError"
  by (simp add: accumulate_def results_def loop_body_def Let_def hours_elapsed_of_def
      total_seconds_def HALF_LIVES_morphine seed_def)

section \<open>Events at or after the query time (C3)\<close>

text \<open>
  C3, as the specification states it: the result at a query time equals the sum over
  the events strictly preceding it, and the pairs skipped are exactly those with elapsed
  hours \<open>\<le> 0\<close>. Neither holds of the script. With the target time listed twice, a
  dose of 5 of oxycodone one half-life earlier leaves 5 in the result, where the sum
  over the preceding events is \<open>5/2\<close>; and a pair with positive elapsed hours is skipped
  as well when its substance (aspirin) has no half-life.
\<close>

theorem repeated_target_counterexample:
  "hours_elapsed_of 11520000000 0 = 32 / 10 \<and>
   remaining_dose 5 (32 / 10) (32 / 10) = Inr (5 / 2) \<and>
   accumulate HALF_LIVES [\<lparr>med_time = 0, med_dose = 5, med_type = ''oxycodone''\<rparr>]
     [11520000000, 11520000000]
     = Inr [11520000000 \<mapsto> [''oxycodone'' \<mapsto> 5, ''hydrocodone'' \<mapsto> 0]] \<and>
   (5::real) \<noteq> 5 / 2 \<and>
   0 < hours_elapsed_of 3600000000 0 \<and>
   loop_body HALF_LIVES \<lparr>med_time = 0, med_dose = 5, med_type = ''aspirin''\<rparr> 3600000000
     (results [3600000000]) = Inr (results [3600000000])"
  using repeated_target_run
  by (simp add: hours_elapsed_of_def total_seconds_def remaining_dose_def
      loop_body_skip_absent HALF_LIVES_aspirin)

text \<open>
  C3, amended. A pair of an event and a target time has elapsed hours \<open>\<le> 0\<close> exactly
  when the target time is not after the event, and the loop body then leaves the result
  map as it is; it also leaves it as it is when the substance has no half-life in the
  table or the half-life zero. When the accumulation returns a result and the target
  time occurs once in the list of target times, the result at that target time has
  exactly the keys oxycodone and hydrocodone, each with the sum of the contributions of
  the events of that substance that strictly precede the target time.
\<close>

theorem events_not_before_query_skipped:
  assumes "accumulate hl ms ts = Inr r" and "count_list ts t = 1"
  shows "(hours_elapsed_of t (med_time m0) \<le> 0) = (t \<le> med_time m0)
       \<and> (t \<le> med_time m0 \<longrightarrow> loop_body hl m0 t res = Inr res)
       \<and> (hl (med_type m0) = None \<or> hl (med_type m0) = Some 0 \<longrightarrow>
            loop_body hl m0 t res = Inr res)
       \<and> (\<exists>inner. r t = Some inner \<and>
             (\<forall>s. inner s =
                (if s \<in> {''oxycodone'', ''hydrocodone''}
                 then Some (\<Sum>m\<leftarrow>filter (\<lambda>m. med_type m = s \<and> med_time m < t) ms.
                              decayed hl m t)
                 else None)))"
proof -
  have "(hours_elapsed_of t (med_time m0) \<le> 0) = (t \<le> med_time m0)"
    using hours_elapsed_pos [of t "med_time m0"] by auto
  moreover note accumulate_result_once [OF assms]
  moreover have "t \<le> med_time m0 \<longrightarrow> loop_body hl m0 t res = Inr res"
    by (simp add: loop_body_skip_time)
  moreover have "hl (med_type m0) = None \<or> hl (med_type m0) = Some 0 \<longrightarrow>
            loop_body hl m0 t res = Inr res"
    by (auto simp: loop_body_skip_absent loop_body_skip_zero)
  ultimately show ?thesis
    by blast
qed

theorem events_not_before_query_skipped_witness:
  "accumulate HALF_LIVES
     [\<lparr>med_time = 0, med_dose = 5, med_type = ''oxycodone''\<rparr>,
      \<lparr>med_time = 11520000000, med_dose = 5, med_type = ''oxycodone''\<rparr>]
     [11520000000]
     = Inr [11520000000 \<mapsto> [''oxycodone'' \<mapsto> 5 / 2, ''hydrocodone'' \<mapsto> 0]] \<and>
   count_list [11520000000 :: int] 11520000000 = 1 \<and>
   hours_elapsed_of 11520000000 11520000000 \<le> 0 \<and>
   loop_body HALF_LIVES \<lparr>med_time = 11520000000, med_dose = 5, med_type = ''oxycodone''\<rparr>
     11520000000 (results [11520000000]) = Inr (results [11520000000]) \<and>
   (\<Sum>m\<leftarrow>filter (\<lambda>m. med_type m = ''oxycodone'' \<and> med_time m < 11520000000)
        [\<lparr>med_time = 0, med_dose = 5, med_type = ''oxycodone''\<rparr>,
         \<lparr>med_time = 11520000000, med_dose = 5, med_type = ''oxycodone''\<rparr>].
      decayed HALF_LIVES m 11520000000) = 5 / 2"
  using events_not_before_query_skipped
    [OF event_at_target_run, of 11520000000
        "\<lparr>med_time = 11520000000, med_dose = 5, med_type = ''oxycodone''\<rparr>"
        "results [11520000000]"]
    event_at_target_run
  by (auto simp: fun_eq_iff split: if_splits)

section \<open>Decay is applied per event (C4)\<close>

text \<open>
  C4, as the specification states it: for every list of events, the accumulated value
  of a substance at a query time is the sum of each event's own decayed remainder. It
  does not hold of the script. With the target time listed twice, two doses of
  hydrocodone whose remainders are 1 and 2 leave 6 in the result; and for two doses of
  morphine the accumulation has no result at all.
\<close>

theorem two_doses_counterexample:
  "remaining_dose 4 (hours_elapsed_of 28800000000 0) 4 = Inr 1 \<and>
   remaining_dose 4 (hours_elapsed_of 28800000000 14400000000) 4 = Inr 2 \<and>
   accumulate HALF_LIVES
     [\<lparr>med_time = 0, med_dose = 4, med_type = ''hydrocodone''\<rparr>,
      \<lparr>med_time = 14400000000, med_dose = 4, med_type = ''hydrocodone''\<rparr>]
     [28800000000, 28800000000]
     = Inr [28800000000 \<mapsto> [''oxycodone'' \<mapsto> 0, ''hydrocodone'' \<mapsto> 6]] \<and>
   (6::real) \<noteq> 1 + 2 \<and>
   accumulate HALF_LIVES
     [\<lparr>med_time = 0, med_dose = 5, med_type = ''morphine''\<rparr>,
      \<lparr>med_time = 86400000000, med_dose = 5, med_type = ''morphine''\<rparr>]
     [90000000000] = Inl KeyError"
  using two_doses_repeated_target_run two_morphine_run
  by (simp add: hours_elapsed_of_def total_seconds_def remaining_dose_def power2_eq_square)

text \<open>
  C4, amended. When the accumulation returns a result and the target time occurs once
  in the list of target times, then for a substance with a nonzero half-life \<open>h\<close> the
  result at that target time holds, under the key oxycodone or hydrocodone, the sum over
  the events of that substance strictly before the target time of each event's own
  \<^verbatim>\<open>remaining_dose\<close> (its dose times one half to the power of its own elapsed hours
  over \<open>h\<close>), and holds no entry for any other substance: every event decays from its
  own time, and the decayed amounts are added.
\<close>

theorem decay_applied_per_event:
  assumes "accumulate hl ms ts = Inr r" and "count_list ts t = 1"
    and "hl s = Some h" and "h \<noteq> 0"
  shows "(\<exists>inner. r t = Some inner \<and>
           inner s =
             (if s \<in> {''oxycodone'', ''hydrocodone''}
              then Some (\<Sum>m\<leftarrow>filter (\<lambda>m. med_type m = s \<and> med_time m < t) ms.
                     med_dose m * (1 / 2) powr (hours_elapsed_of t (med_time m) / h))
              else None))
         \<and> (\<forall>m. remaining_dose (med_dose m) (hours_elapsed_of t (med_time m)) h
                  = Inr (med_dose m * (1 / 2) powr (hours_elapsed_of t (med_time m) / h)))"
proof -
  have "map (\<lambda>m. decayed hl m t) (filter (\<lambda>m. med_type m = s \<and> med_time m < t) ms)
          = map (\<lambda>m. med_dose m * (1 / 2) powr (hours_elapsed_of t (med_time m) / h))
              (filter (\<lambda>m. med_type m = s \<and> med_time m < t) ms)"
    using assms(3,4) by (auto simp: decayed_def)
  then have eq: "(\<Sum>m\<leftarrow>filter (\<lambda>m. med_type m = s \<and> med_time m < t) ms. decayed hl m t)
          = (\<Sum>m\<leftarrow>filter (\<lambda>m. med_type m = s \<and> med_time m < t) ms.
               med_dose m * (1 / 2) powr (hours_elapsed_of t (med_time m) / h))"
    by (rule arg_cong)
  from accumulate_result_once [OF assms(1,2)]
  obtain inner where i: "r t = Some inner"
    and v: "inner s =
      (if s \<in> {''oxycodone'', ''hydrocodone''}
       then Some (\<Sum>m\<leftarrow>filter (\<lambda>m. med_type m = s \<and> med_time m < t) ms. decayed hl m t)
       else None)"
    by blast
  from v have "inner s =
      (if s \<in> {''oxycodone'', ''hydrocodone''}
       then Some (\<Sum>m\<leftarrow>filter (\<lambda>m. med_type m = s \<and> med_time m < t) ms.
              med_dose m * (1 / 2) powr (hours_elapsed_of t (med_time m) / h))
       else None)"
    by (simp only: eq)
  with i assms(4) show ?thesis
    by (simp add: remaining_dose_def)
qed

theorem decay_applied_per_event_witness:
  "accumulate HALF_LIVES
     [\<lparr>med_time = 0, med_dose = 4, med_type = ''hydrocodone''\<rparr>,
      \<lparr>med_time = 14400000000, med_dose = 4, med_type = ''hydrocodone''\<rparr>]
     [28800000000]
     = Inr [28800000000 \<mapsto> [''oxycodone'' \<mapsto> 0, ''hydrocodone'' \<mapsto> 3]] \<and>
   count_list [28800000000 :: int] 28800000000 = 1 \<and>
   HALF_LIVES ''hydrocodone'' = Some 4 \<and>
   (\<Sum>m\<leftarrow>filter (\<lambda>m. med_type m = ''hydrocodone'' \<and> med_time m < 28800000000)
        [\<lparr>med_time = 0, med_dose = 4, med_type = ''hydrocodone''\<rparr>,
         \<lparr>med_time = 14400000000, med_dose = 4, med_type = ''hydrocodone''\<rparr>].
      med_dose m * (1 / 2) powr (hours_elapsed_of 28800000000 (med_time m) / 4)) = 3"
  using decay_applied_per_event
    [OF two_doses_run, of 28800000000 "''hydrocodone''" 4, THEN conjunct1]
    two_doses_run HALF_LIVES_hydrocodone
  by (auto simp: fun_eq_iff split: if_splits)

section \<open>No events (C5)\<close>

text \<open>
  C5. With no medications the accumulation returns the initial result map: for every
  target time, exactly the keys oxycodone and hydrocodone, each with value zero.
\<close>

theorem no_events_all_zero:
  "accumulate hl [] ts = Inr (results ts) \<and>
   (\<forall>t\<in>set ts. \<exists>inner. results ts t = Some inner \<and>
        dom inner = {''oxycodone'', ''hydrocodone''} \<and>
        inner ''oxycodone'' = Some 0 \<and> inner ''hydrocodone'' = Some 0)"
  by (simp add: accumulate_def results_apply dom_seed) (simp add: seed_def)

theorem no_events_all_zero_witness:
  "accumulate HALF_LIVES [] target_times = Inr (results target_times) \<and>
   (\<exists>inner. results target_times 1730948400000000 = Some inner \<and>
        dom inner = {''oxycodone'', ''hydrocodone''} \<and>
        inner ''oxycodone'' = Some 0 \<and> inner ''hydrocodone'' = Some 0) \<and>
   (\<exists>inner. results target_times 1731020400000000 = Some inner \<and>
        dom inner = {''oxycodone'', ''hydrocodone''} \<and>
        inner ''oxycodone'' = Some 0 \<and> inner ''hydrocodone'' = Some 0)"
  using no_events_all_zero [of HALF_LIVES target_times]
  by (simp add: target_times_def)

section \<open>Non-negative amounts (C6)\<close>

text \<open>
  C6. For a dose \<open>q \<ge> 0\<close>, a half-life \<open>h > 0\<close> and elapsed hours \<open>t \<ge> 0\<close>,
  \<^verbatim>\<open>remaining_dose\<close> returns a value \<open>\<ge> 0\<close>; and when no dose is negative, every value in
  the result map of a successful accumulation is \<open>\<ge> 0\<close>.
\<close>

theorem remaining_nonneg:
  "(0 \<le> q \<and> 0 < h \<and> 0 \<le> t \<longrightarrow> (\<exists>x. remaining_dose q t h = Inr x \<and> 0 \<le> x)) \<and>
   ((\<forall>m\<in>set ms. 0 \<le> med_dose m) \<and> accumulate hl ms ts = Inr r \<and>
      r k = Some inner \<and> inner s = Some v \<longrightarrow> 0 \<le> v)"
proof (intro conjI impI)
  assume "0 \<le> q \<and> 0 < h \<and> 0 \<le> t"
  then show "\<exists>x. remaining_dose q t h = Inr x \<and> 0 \<le> x"
    by (simp add: remaining_dose_def)
next
  assume a: "(\<forall>m\<in>set ms. 0 \<le> med_dose m) \<and> accumulate hl ms ts = Inr r \<and>
      r k = Some inner \<and> inner s = Some v"
  then have run: "med_loop hl ms ts (results ts) = Inr r"
    by (simp add: accumulate_def)
  from med_loop_shape [OF run, of k] a
  have "map_option dom (results ts k) = Some (dom inner)" by simp
  then have k: "results ts k = Some seed" and ds: "dom inner = dom seed"
    by (auto simp: results_apply split: if_splits)
  from a ds have "s \<in> dom seed" by auto
  then have z: "seed s = Some 0" by (auto simp: seed_def split: if_splits)
  from med_loop_cell [OF run k z] a
  have v: "v = 0 + real (count_list ts k) *
          (\<Sum>m\<leftarrow>ms. if med_type m = s \<and> med_time m < k then decayed hl m k else 0)"
    by auto
  have "0 \<le> (\<Sum>m\<leftarrow>ms. if med_type m = s \<and> med_time m < k then decayed hl m k else 0)"
    using a by (intro sum_list_nonneg) (auto simp: decayed_nonneg)
  with v show "0 \<le> v" by simp
qed

theorem remaining_nonneg_witness:
  "(0::real) \<le> 5 \<and> (0::real) < 32 / 10 \<and>
   (\<exists>x. remaining_dose 5 (32 / 10) (32 / 10) = Inr x \<and> 0 \<le> x) \<and>
   accumulate HALF_LIVES [\<lparr>med_time = 0, med_dose = 5, med_type = ''oxycodone''\<rparr>] [11520000000]
     = Inr [11520000000 \<mapsto> [''oxycodone'' \<mapsto> 5 / 2, ''hydrocodone'' \<mapsto> 0]] \<and>
   (0::real) \<le> 5 / 2"
  using remaining_nonneg
    [of 5 "32 / 10" "32 / 10"
        "[\<lparr>med_time = 0, med_dose = 5, med_type = ''oxycodone''\<rparr>]"
        HALF_LIVES "[11520000000]"
        "[11520000000 \<mapsto> [''oxycodone'' \<mapsto> 5 / 2, ''hydrocodone'' \<mapsto> 0]]"
        11520000000 "[''oxycodone'' \<mapsto> 5 / 2, ''hydrocodone'' \<mapsto> 0]"
        "''oxycodone''" "5 / 2"]
    example_run
  by simp

section \<open>Linear reduction (C7)\<close>

text \<open>
  C7. The current level is exactly the maximum of zero and the level minus rate times
  elapsed hours, and it is therefore never negative, whatever the size of the product.
\<close>

theorem current_bac_max_nonneg:
  "current_bac current_level rate_per_hour elapsed_hours
     = max 0 (current_level - rate_per_hour * elapsed_hours)
   \<and> 0 \<le> current_bac current_level rate_per_hour elapsed_hours"
  by (simp add: current_bac_def bac_reduction_def)

section \<open>No elapsed time, no decay (C8)\<close>

text \<open>
  C8. For every quantity \<open>q \<ge> 0\<close> and half-life \<open>h > 0\<close>, the remaining dose after
  zero elapsed hours is \<open>q\<close> itself.
\<close>

theorem remaining_dose_zero_elapsed:
  assumes "0 \<le> q" and "0 < h"
  shows "remaining_dose q 0 h = Inr q"
  using assms by (simp add: remaining_dose_def)

theorem remaining_dose_zero_elapsed_witness:
  "(0::real) \<le> 5 \<and> (0::real) < 32 / 10 \<and> remaining_dose 5 0 (32 / 10) = Inr 5"
  using remaining_dose_zero_elapsed [of 5 "32 / 10"] by simp

section \<open>No division by zero (C9)\<close>

text \<open>
  C9. \<^verbatim>\<open>remaining_dose\<close> divides by its half-life and fails on zero, but neither the loop
  body nor the whole accumulation ever ends in \<^verbatim>\<open>ZeroDivisionError\<close>: a
  substance absent from the table, or with the half-life zero, is skipped with the result
  map unchanged, before the division is reached.
\<close>

theorem no_division_by_zero:
  "remaining_dose q e 0 = Inl ZeroDivisionError \<and>
   loop_body hl m t res \<noteq> Inl ZeroDivisionError \<and>
   accumulate hl ms ts \<noteq> Inl ZeroDivisionError \<and>
   (hl (med_type m) = None \<or> hl (med_type m) = Some 0 \<longrightarrow> loop_body hl m t res = Inr res)"
proof -
  have "loop_body hl m t res \<noteq> Inl ZeroDivisionError"
    using loop_body_error [of hl m t res ZeroDivisionError] by auto
  moreover have "accumulate hl ms ts \<noteq> Inl ZeroDivisionError"
    using med_loop_error [of hl ms ts "results ts" ZeroDivisionError]
    by (auto simp: accumulate_def)
  ultimately show ?thesis
    by (auto simp: remaining_dose_def loop_body_skip_absent loop_body_skip_zero)
qed

theorem no_division_by_zero_witness:
  "HALF_LIVES (med_type \<lparr>med_time = 0, med_dose = 5, med_type = ''aspirin''\<rparr>) = None \<and>
   loop_body HALF_LIVES \<lparr>med_time = 0, med_dose = 5, med_type = ''aspirin''\<rparr>
     3600000000 (results [3600000000]) = Inr (results [3600000000]) \<and>
   loop_body [''placebo'' \<mapsto> 0] \<lparr>med_time = 0, med_dose = 5, med_type = ''placebo''\<rparr>
     3600000000 (results [3600000000]) = Inr (results [3600000000]) \<and>
   remaining_dose 5 1 0 = Inl ZeroDivisionError"
  using no_division_by_zero
    [of 5 1 HALF_LIVES "\<lparr>med_time = 0, med_dose = 5, med_type = ''aspirin''\<rparr>"
        3600000000 "results [3600000000]" "[]" "[]"]
    no_division_by_zero
    [of 5 1 "[''placebo'' \<mapsto> 0]" "\<lparr>med_time = 0, med_dose = 5, med_type = ''placebo''\<rparr>"
        3600000000 "results [3600000000]" "[]" "[]"]
  by (simp add: HALF_LIVES_aspirin)

section \<open>The keys of the result (C10)\<close>

text \<open>
  C10. After the loops have processed any medications, the result map has the outer
  keys it started with, and under each of them an inner dictionary with the key set it
  started with; started from the initial result map of line 63, these are the target
  times and, under each, oxycodone and hydrocodone.
\<close>

theorem keys_unchanged:
  assumes "med_loop hl ms ts res = Inr r"
  shows "dom r = dom res \<and>
         (\<forall>k\<in>dom res. \<exists>inner inner'. res k = Some inner \<and> r k = Some inner' \<and>
                                     dom inner' = dom inner) \<and>
         (res = results ts \<longrightarrow>
            dom r = set ts \<and>
            (\<forall>k\<in>set ts. \<exists>inner'. r k = Some inner' \<and>
                                     dom inner' = {''oxycodone'', ''hydrocodone''}))"
proof -
  have sh: "map_option dom (r k) = map_option dom (res k)" for k
    using assms by (rule med_loop_shape)
  have d: "dom r = dom res"
  proof (rule set_eqI)
    fix k show "k \<in> dom r \<longleftrightarrow> k \<in> dom res"
      using sh [of k] by (cases "r k"; cases "res k") auto
  qed
  have i: "\<forall>k\<in>dom res. \<exists>inner inner'. res k = Some inner \<and> r k = Some inner' \<and>
                                     dom inner' = dom inner"
  proof
    fix k assume "k \<in> dom res"
    then show "\<exists>inner inner'. res k = Some inner \<and> r k = Some inner' \<and> dom inner' = dom inner"
      using sh [of k] by (cases "r k"; cases "res k") auto
  qed
  have "dom (results ts) = set ts"
    by (auto simp: results_apply dom_def)
  with d i show ?thesis
    by (auto simp: results_apply dom_seed)
qed

theorem keys_unchanged_witness:
  "med_loop HALF_LIVES [\<lparr>med_time = 0, med_dose = 5, med_type = ''oxycodone''\<rparr>]
     [11520000000] (results [11520000000])
     = Inr [11520000000 \<mapsto> [''oxycodone'' \<mapsto> 5 / 2, ''hydrocodone'' \<mapsto> 0]] \<and>
   dom [11520000000 \<mapsto> [''oxycodone'' \<mapsto> 5 / 2 :: real, ''hydrocodone'' \<mapsto> 0]]
     = dom (results [11520000000]) \<and>
   dom [11520000000 \<mapsto> [''oxycodone'' \<mapsto> 5 / 2 :: real, ''hydrocodone'' \<mapsto> 0]]
     = set [11520000000 :: int] \<and>
   (\<exists>inner'. [11520000000 \<mapsto> [''oxycodone'' \<mapsto> 5 / 2 :: real, ''hydrocodone'' \<mapsto> 0]]
                (11520000000 :: int) = Some inner' \<and>
             dom inner' = {''oxycodone'', ''hydrocodone''})"
proof -
  have run: "med_loop HALF_LIVES [\<lparr>med_time = 0, med_dose = 5, med_type = ''oxycodone''\<rparr>]
     [11520000000] (results [11520000000])
     = Inr [11520000000 \<mapsto> [''oxycodone'' \<mapsto> 5 / 2, ''hydrocodone'' \<mapsto> 0]]"
    using example_run by (simp add: accumulate_def)
  from keys_unchanged [OF run] run show ?thesis
    by simp
qed

end
